theory Spec2Isabelle
  imports Main "HOL-Library.Sublist"
begin

section \<open>Python strings\<close>

text \<open>
  A string is a list of characters, a character is one of the 256 code points from 0 to
  255, and the length of a string is the number of its characters. On these code points
  \<^verbatim>\<open>str.lower\<close> maps the letters A to Z and the letters from 192 to 222 other than the
  multiplication sign 215 to the code point 32 above, and \<^verbatim>\<open>str.isspace\<close> holds for
  tab, line feed, vertical tab, form feed, carriage return, the four separators 28 to 31,
  the blank, the next-line character 133 and the no-break space 160.
\<close>

definition lower_char :: "char \<Rightarrow> char" where
  "lower_char c =
     (case map_of (zip ''ABCDEFGHIJKLMNOPQRSTUVWXYZ'' ''abcdefghijklmnopqrstuvwxyz'') c of
        Some d \<Rightarrow> d
      | None \<Rightarrow>
          (let n = (of_char c :: nat)
           in if 192 \<le> n \<and> n \<le> 222 \<and> n \<noteq> 215 then char_of (n + 32) else c))"

definition lower :: "string \<Rightarrow> string" where
  "lower s = map lower_char s"

definition is_space :: "char \<Rightarrow> bool" where
  "is_space c =
     (let n = (of_char c :: nat)
      in n = 32 \<or> (9 \<le> n \<and> n \<le> 13) \<or> (28 \<le> n \<and> n \<le> 31) \<or> n = 133 \<or> n = 160)"

text \<open>\<^verbatim>\<open>s.strip()\<close>\<close>

definition strip :: "string \<Rightarrow> string" where
  "strip s = rev (dropWhile is_space (rev (dropWhile is_space s)))"

text \<open>\<^verbatim>\<open>s.rstrip('/')\<close>\<close>

definition rstrip_slash :: "string \<Rightarrow> string" where
  "rstrip_slash s = rev (dropWhile (\<lambda>c. c = CHR ''/'') (rev s))"

text \<open>\<^verbatim>\<open>s.startswith(p)\<close>, \<^verbatim>\<open>s.endswith(p)\<close> and \<^verbatim>\<open>sub in s\<close>\<close>

fun startswith :: "string \<Rightarrow> string \<Rightarrow> bool" where
  "startswith s [] = True"
| "startswith [] (p # ps) = False"
| "startswith (c # cs) (p # ps) = (c = p \<and> startswith cs ps)"

definition endswith :: "string \<Rightarrow> string \<Rightarrow> bool" where
  "endswith s p = startswith (rev s) (rev p)"

fun contains :: "string \<Rightarrow> string \<Rightarrow> bool" where
  "contains [] sub = (sub = [])"
| "contains (c # cs) sub = (startswith (c # cs) sub \<or> contains cs sub)"

text \<open>
  \<^verbatim>\<open>s.split(sep)\<close> for a separator that is not empty (every separator of the program is a
  literal): the pieces between the occurrences of \<open>sep\<close>, found from the left without
  overlap. \<open>acc\<close> holds the current piece, reversed.
\<close>

fun split_acc :: "string \<Rightarrow> string \<Rightarrow> string \<Rightarrow> string list" where
  "split_acc sep acc [] = [rev acc]"
| "split_acc sep acc (c # cs) =
     (if startswith (c # cs) sep then rev acc # split_acc sep [] (drop (length sep - 1) cs)
      else split_acc sep (c # acc) cs)"

definition split :: "string \<Rightarrow> string \<Rightarrow> string list" where
  "split s sep = split_acc sep [] s"

text \<open>\<^verbatim>\<open>s.replace(old, new)\<close> for \<open>old\<close> not empty.\<close>

fun replace :: "string \<Rightarrow> string \<Rightarrow> string \<Rightarrow> string" where
  "replace [] old new = []"
| "replace (c # cs) old new =
     (if startswith (c # cs) old then new @ replace (drop (length old - 1) cs) old new
      else c # replace cs old new)"

text \<open>\<^verbatim>\<open>str(n)\<close> for an integer: its decimal digits.\<close>

fun digits :: "nat \<Rightarrow> string" where
  "digits n =
     (if n < 10 then [''0123456789'' ! n] else digits (n div 10) @ [''0123456789'' ! (n mod 10)])"

declare digits.simps [simp del]

definition str_int :: "int \<Rightarrow> string" where
  "str_int i = (if i < 0 then CHR ''-'' # digits (nat (- i)) else digits (nat i))"

section \<open>Exceptions\<close>

text \<open>
  An exception of the program is the \<^verbatim>\<open>HTTPException\<close> of the web framework, with its
  status code and its detail, or any other exception, with the name of its class and the
  message \<^verbatim>\<open>str(e)\<close> gives. A call that can raise returns \<open>Inl\<close> of the exception or
  \<open>Inr\<close> of its value, and \<open>and_then\<close> runs the next step on the value.
\<close>

datatype exception =
  HTTPException (status_code: nat) (detail: string)
| Error (class_name: string) (message: string)

definition and_then :: "exception + 'a \<Rightarrow> ('a \<Rightarrow> exception + 'b) \<Rightarrow> exception + 'b" where
  "and_then r f = (case r of Inl e \<Rightarrow> Inl e | Inr v \<Rightarrow> f v)"

section \<open>Parsed markup\<close>

text \<open>
  The tree \<^verbatim>\<open>BeautifulSoup(content, 'html.parser')\<close> builds: a tag has a name, its
  attributes and its children; a text node has its string. The document itself is a tag
  (named \<^verbatim>\<open>[document]\<close>). The value of the \<^verbatim>\<open>class\<close> attribute is kept as it is
  written, its classes separated by white space.
\<close>

datatype node =
  Tag (name: string) (attrs: "(string \<times> string) list") (contents: "node list")
| NavigableString string

text \<open>The nodes below a node, in document order.\<close>

fun descendants :: "node \<Rightarrow> node list" where
  "descendants (Tag n a cs) = concat (map (\<lambda>c. c # descendants c) cs)"
| "descendants (NavigableString s) = []"

text \<open>\<^verbatim>\<open>tag.get(key)\<close>; \<^verbatim>\<open>tag.get(key, '')\<close> is \<open>get_default\<close>.\<close>

fun get :: "node \<Rightarrow> string \<Rightarrow> string option" where
  "get (Tag n a cs) k = map_of a k"
| "get (NavigableString s) k = None"

definition get_default :: "node \<Rightarrow> string \<Rightarrow> string" where
  "get_default t k = (case get t k of None \<Rightarrow> [] | Some v \<Rightarrow> v)"

fun is_tag :: "string \<Rightarrow> node \<Rightarrow> bool" where
  "is_tag nm (Tag n a cs) = (n = nm)"
| "is_tag nm (NavigableString s) = False"

text \<open>\<^verbatim>\<open>soup.find_all(...)\<close> and \<^verbatim>\<open>soup.find(...)\<close> for a test \<open>P\<close> of a tag.\<close>

definition find_all :: "(node \<Rightarrow> bool) \<Rightarrow> node \<Rightarrow> node list" where
  "find_all P soup = filter P (descendants soup)"

definition find_tag :: "(node \<Rightarrow> bool) \<Rightarrow> node \<Rightarrow> node option" where
  "find_tag P soup = (case find_all P soup of [] \<Rightarrow> None | t # _ \<Rightarrow> Some t)"

text \<open>The strings of the text nodes of a node, in document order.\<close>

fun all_strings :: "node \<Rightarrow> string list" where
  "all_strings (Tag n a cs) = concat (map all_strings cs)"
| "all_strings (NavigableString s) = [s]"

text \<open>\<^verbatim>\<open>node.get_text()\<close>\<close>

definition get_text :: "node \<Rightarrow> string" where
  "get_text t = concat (all_strings t)"

text \<open>
  With \<^verbatim>\<open>strip=True\<close> every string is stripped and the empty ones are left out;
  \<^verbatim>\<open>get_text(strip=True)\<close> joins them with nothing and
  \<^verbatim>\<open>get_text(separator=' ', strip=True)\<close> with one blank.
\<close>

definition stripped_strings :: "node \<Rightarrow> string list" where
  "stripped_strings t = filter (\<lambda>s. s \<noteq> []) (map strip (all_strings t))"

definition get_text_strip :: "node \<Rightarrow> string" where
  "get_text_strip t = concat (stripped_strings t)"

fun join :: "string \<Rightarrow> string list \<Rightarrow> string" where
  "join sep [] = []"
| "join sep [s] = s"
| "join sep (s # t # ts) = s @ sep @ join sep (t # ts)"

definition get_text_sep_strip :: "node \<Rightarrow> string" where
  "get_text_sep_strip t = join '' '' (stripped_strings t)"

section \<open>Brand name\<close>

text \<open>Python's truth value of an \<^verbatim>\<open>Optional[str]\<close>: \<^verbatim>\<open>None\<close> and the empty string are false.\<close>

fun truthy :: "string option \<Rightarrow> bool" where
  "truthy None = False"
| "truthy (Some s) = (s \<noteq> [])"

text \<open>
  \<^verbatim>\<open>extract_brand_name(soup, url)\<close>. \<open>netloc\<close> is \<^verbatim>\<open>urlparse(url).netloc\<close> of the
  standard library, which raises \<^verbatim>\<open>ValueError\<close> for some URLs, and \<open>capitalize\<close> is
  \<^verbatim>\<open>str.capitalize\<close>, whose result can hold a code point above 255. The class of the logo
  image is matched by the regular expression \<^verbatim>\<open>logo\<close>, ignoring case: the class attribute
  holds the letters \<^verbatim>\<open>logo\<close> in some case.
\<close>

definition is_og_site_name :: "node \<Rightarrow> bool" where
  "is_og_site_name t = (is_tag ''meta'' t \<and> get t ''property'' = Some ''og:site_name'')"

definition is_logo_img :: "node \<Rightarrow> bool" where
  "is_logo_img t =
     (is_tag ''img'' t \<and>
      (case get t ''class'' of None \<Rightarrow> False | Some c \<Rightarrow> contains (lower c) ''logo''))"

definition method1 :: "node \<Rightarrow> string option" where
  "method1 soup = (case find_tag is_og_site_name soup of None \<Rightarrow> None | Some m \<Rightarrow> get m ''content'')"

definition method2 :: "node \<Rightarrow> string option \<Rightarrow> string option" where
  "method2 soup brand_name =
     (if \<not> truthy brand_name then
        (case find_tag (is_tag ''title'') soup of
           None \<Rightarrow> brand_name
         | Some title \<Rightarrow> Some (strip (hd (split (hd (split (get_text title) ''|'')) ''-''))))
      else brand_name)"

definition method3 :: "node \<Rightarrow> string option \<Rightarrow> string option" where
  "method3 soup brand_name =
     (if \<not> truthy brand_name then
        (case find_tag is_logo_img soup of
           None \<Rightarrow> brand_name
         | Some logo \<Rightarrow> Some (get_default logo ''alt''))
      else brand_name)"

definition method4 ::
  "(string \<Rightarrow> exception + string) \<Rightarrow> (string \<Rightarrow> string) \<Rightarrow> string \<Rightarrow> string option \<Rightarrow>
   exception + string option" where
  "method4 netloc capitalize url brand_name =
     (if \<not> truthy brand_name then
        and_then (netloc url)
          (\<lambda>domain. Inr (Some (capitalize (hd (split (replace domain ''www.'' []) ''.'')))))
      else Inr brand_name)"

definition extract_brand_name ::
  "(string \<Rightarrow> exception + string) \<Rightarrow> (string \<Rightarrow> string) \<Rightarrow> node \<Rightarrow> string \<Rightarrow> exception + string" where
  "extract_brand_name netloc capitalize soup url =
     and_then (method4 netloc capitalize url (method3 soup (method2 soup (method1 soup))))
       (\<lambda>brand_name. Inr (case brand_name of
                            None \<Rightarrow> ''Unknown Brand''
                          | Some b \<Rightarrow> if b = [] then ''Unknown Brand'' else b))"

section \<open>JSON values\<close>

text \<open>
  What \<^verbatim>\<open>response.json()\<close> returns: \<^verbatim>\<open>None\<close>, a boolean, an integer, a float (held by
  its truth value and by the string \<^verbatim>\<open>str\<close> gives for it), a string, a list, or a
  dictionary (the list of its items, every key once).
\<close>

datatype json =
  JNull
| JBool bool
| JInt int
| JFloat bool string
| JStr string
| JList "json list"
| JDict "(string \<times> json) list"

fun type_name :: "json \<Rightarrow> string" where
  "type_name JNull = ''NoneType''"
| "type_name (JBool b) = ''bool''"
| "type_name (JInt i) = ''int''"
| "type_name (JFloat b r) = ''float''"
| "type_name (JStr s) = ''str''"
| "type_name (JList vs) = ''list''"
| "type_name (JDict d) = ''dict''"

text \<open>A name between two apostrophes, as the messages of Python write it.\<close>

definition quoted :: "string \<Rightarrow> string" where
  "quoted s = CHR 0x27 # s @ [CHR 0x27]"

text \<open>The truth value of a value.\<close>

fun is_true :: "json \<Rightarrow> bool" where
  "is_true JNull = False"
| "is_true (JBool b) = b"
| "is_true (JInt i) = (i \<noteq> 0)"
| "is_true (JFloat b r) = b"
| "is_true (JStr s) = (s \<noteq> [])"
| "is_true (JList vs) = (vs \<noteq> [])"
| "is_true (JDict d) = (d \<noteq> [])"

text \<open>\<^verbatim>\<open>d.get(key, default)\<close> of a dictionary.\<close>

definition lookup :: "(string \<times> json) list \<Rightarrow> string \<Rightarrow> json \<Rightarrow> json" where
  "lookup d k dflt = (case map_of d k of None \<Rightarrow> dflt | Some v \<Rightarrow> v)"

text \<open>\<^verbatim>\<open>x.get(key, default)\<close> of any value: only a dictionary has the method.\<close>

fun py_get :: "json \<Rightarrow> string \<Rightarrow> json \<Rightarrow> exception + json" where
  "py_get (JDict d) k dflt = Inr (lookup d k dflt)"
| "py_get x k dflt =
     Inl (Error ''AttributeError''
            (quoted (type_name x) @ '' object has no attribute '' @ quoted ''get''))"

text \<open>\<^verbatim>\<open>x[0]\<close> of any value.\<close>

fun index0 :: "json \<Rightarrow> exception + json" where
  "index0 (JList []) = Inl (Error ''IndexError'' ''list index out of range'')"
| "index0 (JList (v # vs)) = Inr v"
| "index0 (JStr []) = Inl (Error ''IndexError'' ''string index out of range'')"
| "index0 (JStr (c # cs)) = Inr (JStr [c])"
| "index0 (JDict d) = Inl (Error ''KeyError'' ''0'')"
| "index0 x = Inl (Error ''TypeError'' (quoted (type_name x) @ '' object is not subscriptable''))"

text \<open>
  The elements a \<^verbatim>\<open>for\<close> loop over a value runs through: those of a list, the characters of
  a string, the keys of a dictionary.
\<close>

fun iterate :: "json \<Rightarrow> exception + json list" where
  "iterate (JList vs) = Inr vs"
| "iterate (JStr s) = Inr (map (\<lambda>c. JStr [c]) s)"
| "iterate (JDict d) = Inr (map (\<lambda>item. JStr (fst item)) d)"
| "iterate x = Inl (Error ''TypeError'' (quoted (type_name x) @ '' object is not iterable''))"

text \<open>
  \<^verbatim>\<open>str(x)\<close>. \<open>py_repr\<close> is what it gives for a list and a dictionary, whose elements it
  writes as \<^verbatim>\<open>repr\<close> does.
\<close>

fun py_str :: "(json \<Rightarrow> string) \<Rightarrow> json \<Rightarrow> string" where
  "py_str py_repr JNull = ''None''"
| "py_str py_repr (JBool b) = (if b then ''True'' else ''False'')"
| "py_str py_repr (JInt i) = str_int i"
| "py_str py_repr (JFloat b r) = r"
| "py_str py_repr (JStr s) = s"
| "py_str py_repr x = py_repr x"

section \<open>Product catalog\<close>

type_synonym variant = "(string \<times> json) list"

record ProductModel =
  id' :: "string option"
  title :: "string option"
  description :: "string option"
  price :: "string option"
  images :: "string list"
  variants :: "variant list"

text \<open>
  The answer of the HTTP client to the request of the listing: \<^verbatim>\<open>httpx.HTTPError\<close>,
  \<^verbatim>\<open>json.JSONDecodeError\<close>, an exception of another class, or the decoded value.
\<close>

datatype json_response = HTTPError | JSONDecodeError | Raises exception | Json json

text \<open>
  \<^verbatim>\<open>fetch_json(url)\<close>: the two exceptions it names give the empty dictionary, any other
  one goes on to the caller.
\<close>

definition fetch_json :: "(string \<Rightarrow> json_response) \<Rightarrow> string \<Rightarrow> exception + json" where
  "fetch_json session_get url =
     (case session_get url of
        Json data \<Rightarrow> Inr data
      | HTTPError \<Rightarrow> Inr (JDict [])
      | JSONDecodeError \<Rightarrow> Inr (JDict [])
      | Raises e \<Rightarrow> Inl e)"

text \<open>\<^verbatim>\<open>fetch_json(products_url)\<close> followed by \<^verbatim>\<open>data.get('products')\<close>.\<close>

definition fetch_products :: "(string \<Rightarrow> json_response) \<Rightarrow> string \<Rightarrow> exception + json" where
  "fetch_products session_get url =
     and_then (fetch_json session_get url) (\<lambda>data. py_get data ''products'' JNull)"

text \<open>The arguments the program gives to \<^verbatim>\<open>ProductModel(...)\<close>.\<close>

record product_args =
  arg_id :: string
  arg_title :: json
  arg_description :: string
  arg_price :: string
  arg_images :: "json list"
  arg_variants :: json

text \<open>
  The validation of the arguments. Arguments of the declared types are taken as they are:
  a title that is \<^verbatim>\<open>None\<close> or a string, images that are strings, variants that are a
  list of dictionaries. \<open>pydantic\<close> is what the library does with any other arguments:
  its version 1 converts some of them, its version 2 raises \<^verbatim>\<open>ValidationError\<close>.
\<close>

fun optional_str :: "json \<Rightarrow> string option option" where
  "optional_str JNull = Some None"
| "optional_str (JStr s) = Some (Some s)"
| "optional_str x = None"

fun str_items :: "json list \<Rightarrow> string list option" where
  "str_items [] = Some []"
| "str_items (JStr s # vs) = (case str_items vs of None \<Rightarrow> None | Some ss \<Rightarrow> Some (s # ss))"
| "str_items (v # vs) = None"

fun dict_items :: "json list \<Rightarrow> variant list option" where
  "dict_items [] = Some []"
| "dict_items (JDict d # vs) = (case dict_items vs of None \<Rightarrow> None | Some ds \<Rightarrow> Some (d # ds))"
| "dict_items (v # vs) = None"

fun dict_list :: "json \<Rightarrow> variant list option" where
  "dict_list (JList vs) = dict_items vs"
| "dict_list x = None"

definition typed_model :: "product_args \<Rightarrow> ProductModel option" where
  "typed_model args =
     (case optional_str (arg_title args) of
        None \<Rightarrow> None
      | Some t \<Rightarrow>
          (case str_items (arg_images args) of
             None \<Rightarrow> None
           | Some srcs \<Rightarrow>
               (case dict_list (arg_variants args) of
                  None \<Rightarrow> None
                | Some vs \<Rightarrow>
                    Some \<lparr> id' = Some (arg_id args), title = t,
                           description = Some (arg_description args),
                           price = Some (arg_price args), images = srcs, variants = vs \<rparr>)))"

definition validate_model ::
  "(product_args \<Rightarrow> exception + ProductModel) \<Rightarrow> product_args \<Rightarrow> exception + ProductModel" where
  "validate_model pydantic args =
     (case typed_model args of Some m \<Rightarrow> Inr m | None \<Rightarrow> pydantic args)"

text \<open>\<^verbatim>\<open>[img.get('src', '') for img in images]\<close>\<close>

fun image_srcs :: "json list \<Rightarrow> exception + json list" where
  "image_srcs [] = Inr []"
| "image_srcs (img # imgs) =
     and_then (py_get img ''src'' (JStr []))
       (\<lambda>src. and_then (image_srcs imgs) (\<lambda>srcs. Inr (src # srcs)))"

text \<open>
  The \<^verbatim>\<open>ProductModel\<close> of one entry of the listing, its arguments evaluated in the order
  they are written: the first exception ends it. \<open>html_text\<close> is
  \<^verbatim>\<open>BeautifulSoup(x, 'html.parser').get_text()\<close> of a value, which raises for markup the
  parser does not take (\<^verbatim>\<open>None\<close> is such markup).
\<close>

definition product_model ::
  "(json \<Rightarrow> exception + string) \<Rightarrow> (product_args \<Rightarrow> exception + ProductModel) \<Rightarrow> (json \<Rightarrow> string) \<Rightarrow>
   json \<Rightarrow> exception + ProductModel" where
  "product_model html_text pydantic py_repr product =
     and_then (py_get product ''id'' (JStr [])) (\<lambda>ident.
     and_then (py_get product ''title'' (JStr [])) (\<lambda>product_title.
     and_then (py_get product ''body_html'' (JStr [])) (\<lambda>body_html.
     and_then (html_text body_html) (\<lambda>text.
     and_then (py_get product ''variants'' (JList [JDict []])) (\<lambda>vs.
     and_then (index0 vs) (\<lambda>first.
     and_then (py_get first ''price'' (JStr ''0'')) (\<lambda>amount.
     and_then (py_get product ''images'' (JList [])) (\<lambda>imgs.
     and_then (iterate imgs) (\<lambda>elements.
     and_then (image_srcs elements) (\<lambda>srcs.
     and_then (py_get product ''variants'' (JList [])) (\<lambda>all_variants.
       validate_model pydantic
         \<lparr> arg_id = py_str py_repr ident, arg_title = product_title,
           arg_description = take 500 text, arg_price = py_str py_repr amount,
           arg_images = srcs, arg_variants = all_variants \<rparr>)))))))))))"

text \<open>The \<^verbatim>\<open>for\<close> loop over the entries of one page: the first entry that raises ends it.\<close>

fun normalize_page ::
  "(json \<Rightarrow> exception + string) \<Rightarrow> (product_args \<Rightarrow> exception + ProductModel) \<Rightarrow> (json \<Rightarrow> string) \<Rightarrow>
   json list \<Rightarrow> exception + ProductModel list" where
  "normalize_page html_text pydantic py_repr [] = Inr []"
| "normalize_page html_text pydantic py_repr (p # ps) =
     and_then (product_model html_text pydantic py_repr p)
       (\<lambda>m. and_then (normalize_page html_text pydantic py_repr ps) (\<lambda>ms. Inr (m # ms)))"

definition products_url :: "string \<Rightarrow> nat \<Rightarrow> string" where
  "products_url base_url page =
     rstrip_slash base_url @ ''/products.json?limit=250&page='' @ str_int (int page)"

text \<open>
  The \<^verbatim>\<open>while True\<close> loop of \<^verbatim>\<open>fetch_product_catalog\<close>, from the state \<open>page\<close>,
  \<open>products\<close>. The loop has no bound, so it is a partial function: \<open>None\<close> is a run
  that never ends. \<open>fetched\<close> is the list of the URLs requested so far; the result is
  what the method returns or raises, with the URLs requested.
\<close>

partial_function (option) catalog_loop ::
  "(string \<Rightarrow> json_response) \<Rightarrow> (json \<Rightarrow> exception + string) \<Rightarrow>
   (product_args \<Rightarrow> exception + ProductModel) \<Rightarrow> (json \<Rightarrow> string) \<Rightarrow> string \<Rightarrow> nat \<Rightarrow>
   ProductModel list \<Rightarrow> string list \<Rightarrow> ((exception + ProductModel list) \<times> string list) option" where
  "catalog_loop session_get html_text pydantic py_repr base_url page products fetched =
     (case fetch_products session_get (products_url base_url page) of
        Inl e \<Rightarrow> Some (Inl e, fetched @ [products_url base_url page])
      | Inr listing \<Rightarrow>
          if \<not> is_true listing then Some (Inr products, fetched @ [products_url base_url page])
          else
            (case iterate listing of
               Inl e \<Rightarrow> Some (Inl e, fetched @ [products_url base_url page])
             | Inr entries \<Rightarrow>
                 (case normalize_page html_text pydantic py_repr entries of
                    Inl e \<Rightarrow> Some (Inl e, fetched @ [products_url base_url page])
                  | Inr ms \<Rightarrow>
                      if length entries < 250
                      then Some (Inr (products @ ms), fetched @ [products_url base_url page])
                      else catalog_loop session_get html_text pydantic py_repr base_url (page + 1)
                             (products @ ms) (fetched @ [products_url base_url page]))))"

declare catalog_loop.simps [code]

definition fetch_product_catalog ::
  "(string \<Rightarrow> json_response) \<Rightarrow> (json \<Rightarrow> exception + string) \<Rightarrow>
   (product_args \<Rightarrow> exception + ProductModel) \<Rightarrow> (json \<Rightarrow> string) \<Rightarrow> string \<Rightarrow>
   ((exception + ProductModel list) \<times> string list) option" where
  "fetch_product_catalog session_get html_text pydantic py_repr base_url =
     catalog_loop session_get html_text pydantic py_repr base_url 1 [] []"

section \<open>Hero products\<close>






section \<open>Selectors\<close>

text \<open>
  The CSS selectors the program uses: a class (\<^verbatim>\<open>.faq\<close>), a tag name (\<^verbatim>\<open>main\<close>), an id
  (\<^verbatim>\<open>#content\<close>) and a class attribute that contains a string (\<^verbatim>\<open>[class*="about"]\<close>).
  The classes of a tag are the words of its class attribute.
\<close>

datatype selector = ClassSel string | TypeSel string | IdSel string | ClassContains string

fun words_acc :: "string \<Rightarrow> string \<Rightarrow> string list" where
  "words_acc acc [] = (if acc = [] then [] else [rev acc])"
| "words_acc acc (c # cs) =
     (if is_space c then (if acc = [] then [] else [rev acc]) @ words_acc [] cs
      else words_acc (c # acc) cs)"

definition class_list :: "node \<Rightarrow> string list" where
  "class_list t = (case get t ''class'' of None \<Rightarrow> [] | Some c \<Rightarrow> words_acc [] c)"

fun selects :: "selector \<Rightarrow> node \<Rightarrow> bool" where
  "selects (ClassSel c) t = (c \<in> set (class_list t))"
| "selects (TypeSel n) t = is_tag n t"
| "selects (IdSel i) t = (get t ''id'' = Some i)"
| "selects (ClassContains sub) t =
     (get t ''class'' \<noteq> None \<and> contains (join '' '' (class_list t)) sub)"

text \<open>\<^verbatim>\<open>soup.select(selector)\<close> and \<^verbatim>\<open>soup.select_one(selector)\<close>\<close>

definition select :: "selector \<Rightarrow> node \<Rightarrow> node list" where
  "select sel soup = find_all (selects sel) soup"

definition select_one :: "selector \<Rightarrow> node \<Rightarrow> node option" where
  "select_one sel soup = find_tag (selects sel) soup"

section \<open>Policies\<close>

text \<open>
  The answer of the HTTP client to the request of a page, with \<^verbatim>\<open>raise_for_status\<close> and
  the parse of the content: \<^verbatim>\<open>httpx.HTTPError\<close>, an exception of another class
  (\<^verbatim>\<open>httpx.InvalidURL\<close> is one), or the parsed page.
\<close>

datatype page_response = PageHTTPError | PageRaises exception | Page node




text \<open>
  The loop over a list of selectors that returns the text of the first selector whose first
  match has more than \<open>least\<close> characters, cut at \<open>most\<close> characters.
\<close>

fun first_text :: "nat \<Rightarrow> nat \<Rightarrow> selector list \<Rightarrow> node \<Rightarrow> string option" where
  "first_text least most [] soup = None"
| "first_text least most (sel # sels) soup =
     (case select_one sel soup of
        None \<Rightarrow> first_text least most sels soup
      | Some section \<Rightarrow>
          if length (get_text_sep_strip section) > least
          then Some (take most (get_text_sep_strip section))
          else first_text least most sels soup)"




section \<open>FAQs\<close>

record FAQ =
  question :: string
  answer :: string

definition faq_selectors :: "selector list" where
  "faq_selectors =
     [ClassSel ''faq-item'', ClassSel ''faq'', ClassSel ''accordion-item'',
      ClassSel ''question-answer'', ClassSel ''qa-item'']"

text \<open>\<^verbatim>\<open>element.find([name, ...])\<close>: the first tag below whose name is in the list.\<close>

definition find_names :: "string list \<Rightarrow> node \<Rightarrow> node option" where
  "find_names names element = find_tag (\<lambda>t. list_ex (\<lambda>n. is_tag n t) names) element"

definition element_faq :: "node \<Rightarrow> FAQ list" where
  "element_faq element =
     (case find_names [''h2'', ''h3'', ''h4'', ''h5'', ''.question'', ''.faq-question''] element of
        None \<Rightarrow> []
      | Some question_elem \<Rightarrow>
          (case find_names [''.answer'', ''.faq-answer'', ''p''] element of
             None \<Rightarrow> []
           | Some answer_elem \<Rightarrow>
               if get_text_strip question_elem \<noteq> [] \<and> get_text_strip answer_elem \<noteq> [] \<and>
                  length (get_text_strip question_elem) > 10
               then [\<lparr> question = get_text_strip question_elem,
                       answer = get_text_strip answer_elem \<rparr>]
               else []))"

definition structured_faqs :: "node \<Rightarrow> FAQ list" where
  "structured_faqs soup =
     concat (map (\<lambda>sel. concat (map element_faq (select sel soup))) faq_selectors)"

text \<open>
  The fallback: \<open>q_findall\<close> is \<^verbatim>\<open>q_pattern.findall\<close>, the pairs of the two groups of
  every match of the pattern in a text.
\<close>

definition match_faq :: "string \<times> string \<Rightarrow> FAQ list" where
  "match_faq m =
     (if strip (fst m) \<noteq> [] \<and> take 300 (strip (snd m)) \<noteq> []
      then [\<lparr> question = strip (fst m), answer = take 300 (strip (snd m)) \<rparr>]
      else [])"

definition pattern_faqs :: "(string \<Rightarrow> (string \<times> string) list) \<Rightarrow> node \<Rightarrow> FAQ list" where
  "pattern_faqs q_findall soup = concat (map match_faq (take 10 (q_findall (get_text soup))))"

definition extract_faqs :: "(string \<Rightarrow> (string \<times> string) list) \<Rightarrow> node \<Rightarrow> FAQ list" where
  "extract_faqs q_findall soup =
     take 15 (if structured_faqs soup = [] then pattern_faqs q_findall soup
              else structured_faqs soup)"

section \<open>Social handles\<close>

record SocialHandles =
  instagram :: "string option"
  facebook :: "string option"
  twitter :: "string option"
  tiktok :: "string option"
  youtube :: "string option"
  linkedin :: "string option"

definition no_handles :: SocialHandles where
  "no_handles =
     \<lparr> instagram = None, facebook = None, twitter = None, tiktok = None, youtube = None,
       linkedin = None \<rparr>"

text \<open>
  \<^verbatim>\<open>soup.find_all('a', href=re.compile(r'(instagram|facebook|twitter|tiktok|youtube|linkedin)\.com'))\<close>:
  the href holds one of the six names followed by \<^verbatim>\<open>.com\<close>.
\<close>

definition social_pattern :: "string \<Rightarrow> bool" where
  "social_pattern href =
     list_ex (\<lambda>site. contains href (site @ ''.com''))
       [''instagram'', ''facebook'', ''twitter'', ''tiktok'', ''youtube'', ''linkedin'']"

definition social_links :: "node \<Rightarrow> node list" where
  "social_links soup =
     find_all (\<lambda>t. is_tag ''a'' t \<and>
                 (case get t ''href'' of None \<Rightarrow> False | Some h \<Rightarrow> social_pattern h)) soup"

definition social_step :: "SocialHandles \<Rightarrow> string \<Rightarrow> SocialHandles" where
  "social_step handles href =
     (if contains href ''instagram.com'' then handles\<lparr>instagram := Some href\<rparr>
      else if contains href ''facebook.com'' then handles\<lparr>facebook := Some href\<rparr>
      else if contains href ''twitter.com'' \<or> contains href ''x.com'' then handles\<lparr>twitter := Some href\<rparr>
      else if contains href ''tiktok.com'' then handles\<lparr>tiktok := Some href\<rparr>
      else if contains href ''youtube.com'' then handles\<lparr>youtube := Some href\<rparr>
      else if contains href ''linkedin.com'' then handles\<lparr>linkedin := Some href\<rparr>
      else handles)"

definition extract_social_handles :: "node \<Rightarrow> SocialHandles" where
  "extract_social_handles soup =
     foldl social_step no_handles
       (map (\<lambda>link. lower (get_default link ''href'')) (social_links soup))"

section \<open>Contact details\<close>

record ContactDetails =
  emails :: "string list"
  phone_numbers :: "string list"
  addresses :: "string list"

definition image_name :: "string \<Rightarrow> bool" where
  "image_name email = (endswith email ''.png'' \<or> endswith email ''.jpg'' \<or> endswith email ''.gif'')"

text \<open>
  \<open>email_findall\<close> and \<open>phone_findall\<close> are \<^verbatim>\<open>findall\<close> of the two compiled patterns, and
  \<open>list_set\<close> is \<^verbatim>\<open>list(set(...))\<close>: the elements of a list once each, in the order the
  set iterates them.
\<close>

definition extract_contact_details ::
  "(string \<Rightarrow> string list) \<Rightarrow> (string \<Rightarrow> string list) \<Rightarrow> (string list \<Rightarrow> string list) \<Rightarrow> node \<Rightarrow>
   ContactDetails" where
  "extract_contact_details email_findall phone_findall list_set soup =
     \<lparr> emails = take 5 (filter (\<lambda>email. \<not> image_name email) (list_set (email_findall (get_text soup)))),
       phone_numbers = take 3 (map strip (list_set (phone_findall (get_text soup)))),
       addresses = [] \<rparr>"

text \<open>What \<^verbatim>\<open>list(set(xs))\<close> may return for \<open>xs\<close>.\<close>

definition set_order :: "string list \<Rightarrow> string list \<Rightarrow> bool" where
  "set_order xs ys = (distinct ys \<and> set ys = set xs)"

section \<open>Brand context\<close>

definition about_selectors :: "selector list" where
  "about_selectors =
     [ClassSel ''about'', ClassSel ''brand-story'', ClassSel ''our-story'',
      ClassSel ''company-info'', ClassContains ''about'']"

definition is_meta_description :: "node \<Rightarrow> bool" where
  "is_meta_description t = (is_tag ''meta'' t \<and> get t ''name'' = Some ''description'')"

definition extract_brand_context :: "node \<Rightarrow> string option" where
  "extract_brand_context soup =
     (case first_text 50 1000 about_selectors soup of
        Some t \<Rightarrow> Some t
      | None \<Rightarrow>
          (case find_tag is_meta_description soup of
             None \<Rightarrow> None
           | Some meta_desc \<Rightarrow>
               if length (get_default meta_desc ''content'') > 50
               then Some (get_default meta_desc ''content'')
               else None))"

section \<open>Important links\<close>

record ImportantLinks =
  order_tracking :: "string option"
  contact_us :: "string option"
  blogs :: "string option"
  shipping_info :: "string option"
  size_guide :: "string option"

definition no_links :: ImportantLinks where
  "no_links =
     \<lparr> order_tracking = None, contact_us = None, blogs = None, shipping_info = None,
       size_guide = None \<rparr>"

text \<open>\<^verbatim>\<open>any(term in text for term in terms)\<close>\<close>

definition any_term :: "string \<Rightarrow> string list \<Rightarrow> bool" where
  "any_term text terms = list_ex (\<lambda>term. contains text term) terms"

text \<open>The href of a link, resolved by \<^verbatim>\<open>urljoin\<close> of the standard library when relative.\<close>

definition link_href :: "(string \<Rightarrow> string \<Rightarrow> string) \<Rightarrow> string \<Rightarrow> node \<Rightarrow> string" where
  "link_href urljoin base_url link =
     (if \<not> startswith (get_default link ''href'') ''http''
      then urljoin base_url (get_default link ''href'')
      else get_default link ''href'')"

definition link_text :: "node \<Rightarrow> string" where
  "link_text link = strip (lower (get_text link))"

definition tracking_terms :: "string list" where
  "tracking_terms = [''track'', ''order'', ''tracking'']"

definition contact_terms :: "string list" where
  "contact_terms = [''contact'', ''contact us'']"

definition blog_terms :: "string list" where
  "blog_terms = [''blog'', ''news'', ''articles'']"

definition shipping_terms :: "string list" where
  "shipping_terms = [''shipping'', ''delivery'']"

definition sizing_terms :: "string list" where
  "sizing_terms = [''size'', ''guide'', ''sizing'']"

text \<open>The body of the loop over the links: the first branch whose terms match is taken.\<close>

definition link_step ::
  "(string \<Rightarrow> string \<Rightarrow> string) \<Rightarrow> string \<Rightarrow> ImportantLinks \<Rightarrow> node \<Rightarrow> ImportantLinks" where
  "link_step urljoin base_url links link =
     (if any_term (link_text link) tracking_terms
      then links\<lparr>order_tracking := Some (link_href urljoin base_url link)\<rparr>
      else if any_term (link_text link) contact_terms
      then links\<lparr>contact_us := Some (link_href urljoin base_url link)\<rparr>
      else if any_term (link_text link) blog_terms
      then links\<lparr>blogs := Some (link_href urljoin base_url link)\<rparr>
      else if any_term (link_text link) shipping_terms
      then links\<lparr>shipping_info := Some (link_href urljoin base_url link)\<rparr>
      else if any_term (link_text link) sizing_terms
      then links\<lparr>size_guide := Some (link_href urljoin base_url link)\<rparr>
      else links)"

text \<open>\<^verbatim>\<open>soup.find_all('a', href=True)\<close>: the anchors that have an href.\<close>

definition href_links :: "node \<Rightarrow> node list" where
  "href_links soup = find_all (\<lambda>t. is_tag ''a'' t \<and> get t ''href'' \<noteq> None) soup"

definition extract_important_links ::
  "(string \<Rightarrow> string \<Rightarrow> string) \<Rightarrow> node \<Rightarrow> string \<Rightarrow> ImportantLinks" where
  "extract_important_links urljoin soup base_url =
     foldl (link_step urljoin base_url) no_links (href_links soup)"

text \<open>
  The same loop with a \<^verbatim>\<open>urljoin\<close> that can raise, as the one of the standard library does
  (\<^verbatim>\<open>ValueError\<close> for an href such as \<^verbatim>\<open>//[x\<close>): the href of every link that does not
  start with \<^verbatim>\<open>http\<close> is resolved before the link is classified, and the first exception
  ends the loop.
\<close>

definition resolve_href ::
  "(string \<Rightarrow> string \<Rightarrow> exception + string) \<Rightarrow> string \<Rightarrow> node \<Rightarrow> exception + string" where
  "resolve_href urljoin base_url link =
     (if \<not> startswith (get_default link ''href'') ''http''
      then urljoin base_url (get_default link ''href'')
      else Inr (get_default link ''href''))"

definition assign_link :: "string \<Rightarrow> string \<Rightarrow> ImportantLinks \<Rightarrow> ImportantLinks" where
  "assign_link text href links =
     (if any_term text tracking_terms then links\<lparr>order_tracking := Some href\<rparr>
      else if any_term text contact_terms then links\<lparr>contact_us := Some href\<rparr>
      else if any_term text blog_terms then links\<lparr>blogs := Some href\<rparr>
      else if any_term text shipping_terms then links\<lparr>shipping_info := Some href\<rparr>
      else if any_term text sizing_terms then links\<lparr>size_guide := Some href\<rparr>
      else links)"

fun links_loop ::
  "(string \<Rightarrow> string \<Rightarrow> exception + string) \<Rightarrow> string \<Rightarrow> ImportantLinks \<Rightarrow> node list \<Rightarrow>
   exception + ImportantLinks" where
  "links_loop urljoin base_url links [] = Inr links"
| "links_loop urljoin base_url links (link # rest) =
     and_then (resolve_href urljoin base_url link)
       (\<lambda>href. links_loop urljoin base_url (assign_link (link_text link) href links) rest)"

definition important_links_or_raise ::
  "(string \<Rightarrow> string \<Rightarrow> exception + string) \<Rightarrow> node \<Rightarrow> string \<Rightarrow> exception + ImportantLinks" where
  "important_links_or_raise urljoin soup base_url =
     links_loop urljoin base_url no_links (href_links soup)"




section \<open>The orchestrator\<close>

record BrandInsightsModel =
  website_url :: string
  brand_name :: "string option"
  product_catalog :: "ProductModel list"
  hero_products :: "ProductModel list"
  privacy_policy :: "string option"
  return_refund_policy :: "string option"
  faqs :: "FAQ list"
  social_handles :: SocialHandles
  contact_details :: ContactDetails
  brand_context :: "string option"
  important_links :: ImportantLinks
  competitors :: "variant list"

text \<open>
  What the program takes from its libraries and from the network: the HTTP client
  (\<open>get_page\<close> for a page, \<open>get_json\<close> for the listing), \<^verbatim>\<open>urlparse(url).netloc\<close>,
  \<^verbatim>\<open>str.capitalize\<close>, \<^verbatim>\<open>urljoin\<close>, the text of markup, the validation of arguments that
  are not of the declared types, \<^verbatim>\<open>str\<close> of a list or a dictionary, \<^verbatim>\<open>findall\<close> of the
  three compiled patterns and \<^verbatim>\<open>list(set(...))\<close>.
\<close>

record world =
  get_page :: "string \<Rightarrow> page_response"
  get_json :: "string \<Rightarrow> json_response"
  netloc :: "string \<Rightarrow> exception + string"
  capitalize :: "string \<Rightarrow> string"
  urljoin :: "string \<Rightarrow> string \<Rightarrow> exception + string"
  html_text :: "json \<Rightarrow> exception + string"
  pydantic :: "product_args \<Rightarrow> exception + ProductModel"
  py_repr :: "json \<Rightarrow> string"
  email_findall :: "string \<Rightarrow> string list"
  phone_findall :: "string \<Rightarrow> string list"
  q_findall :: "string \<Rightarrow> (string \<times> string) list"
  list_set :: "string list \<Rightarrow> string list"





section \<open>Example inputs\<close>

text \<open>
  An entry of a listing with one variant, the same entry with an empty list of variants
  and without the key, an entry whose first variant has no price, and an entry whose
  \<^verbatim>\<open>body_html\<close> is \<^verbatim>\<open>null\<close> and whose list of variants is empty.
\<close>

definition shirt :: json where
  "shirt =
     JDict [(''id'', JInt 7), (''title'', JStr ''Shirt''),
            (''variants'', JList [JDict [(''price'', JStr ''10.00'')]])]"

definition shirt_without_variants :: json where
  "shirt_without_variants = JDict [(''id'', JInt 7), (''title'', JStr ''Shirt''), (''variants'', JList [])]"

definition shirt_without_key :: json where
  "shirt_without_key = JDict [(''id'', JInt 7), (''title'', JStr ''Shirt'')]"

definition shirt_without_price :: json where
  "shirt_without_price =
     JDict [(''id'', JInt 7), (''title'', JStr ''Shirt''), (''variants'', JList [JDict []])]"

definition shirt_with_null_body :: json where
  "shirt_with_null_body =
     JDict [(''id'', JInt 7), (''title'', JStr ''Shirt''), (''body_html'', JNull),
            (''variants'', JList [])]"

text \<open>
  The library calls of the catalog, as far as the examples use them. The text of markup
  that is a string without tags is the string, and markup that is not a string raises the
  \<^verbatim>\<open>TypeError\<close> the parser raises for \<^verbatim>\<open>None\<close>; its message differs between the versions
  of the library and is left empty. The examples give the validation arguments of the
  declared types only, and \<^verbatim>\<open>str\<close> no list and no dictionary: what the two functions
  return is not used.
\<close>

definition plain_text :: "json \<Rightarrow> exception + string" where
  "plain_text markup = (case markup of JStr s \<Rightarrow> Inr s | _ \<Rightarrow> Inl (Error ''TypeError'' []))"

definition strict_pydantic :: "product_args \<Rightarrow> exception + ProductModel" where
  "strict_pydantic args = Inl (Error ''ValidationError'' [])"

definition no_repr :: "json \<Rightarrow> string" where
  "no_repr x = []"

text \<open>A shop whose listing has one full page and one page of a single product.\<close>

definition shop :: "string \<Rightarrow> json_response" where
  "shop url =
     (if url = ''https://shop.example/products.json?limit=250&page=1''
      then Json (JDict [(''products'', JList (replicate 250 shirt))])
      else if url = ''https://shop.example/products.json?limit=250&page=2''
      then Json (JDict [(''products'', JList [shirt])])
      else HTTPError)"

text \<open>A shop whose listing is one product with an empty list of variants.\<close>

definition broken_shop :: "string \<Rightarrow> json_response" where
  "broken_shop url =
     (if url = ''https://shop.example/products.json?limit=250&page=1''
      then Json (JDict [(''products'', JList [shirt_without_variants])])
      else HTTPError)"

text \<open>A homepage that links two products, and a catalog.\<close>

definition item :: "string \<Rightarrow> ProductModel" where
  "item t =
     \<lparr> id' = Some ''1'', title = Some t, description = Some [], price = Some ''0'', images = [],
       variants = [] \<rparr>"



text \<open>
  \<^verbatim>\<open>urlparse(url).netloc\<close> for a URL of ASCII characters that starts with \<^verbatim>\<open>http://\<close> or
  \<^verbatim>\<open>https://\<close> and has no pair of square brackets: what stands between the two slashes
  and the next slash, question mark or hash, and the \<^verbatim>\<open>ValueError\<close> of the library when
  that holds one square bracket without the other.
\<close>

definition http_netloc :: "string \<Rightarrow> exception + string" where
  "http_netloc url =
     (let n = takeWhile (\<lambda>c. c \<noteq> CHR ''/'' \<and> c \<noteq> CHR ''?'' \<and> c \<noteq> CHR ''#'')
                (if startswith url ''https://'' then drop 8 url
                 else if startswith url ''http://'' then drop 7 url
                 else [])
      in if (CHR ''['' \<in> set n) \<noteq> (CHR '']'' \<in> set n)
         then Inl (Error ''ValueError'' ''Invalid IPv6 URL'')
         else Inr n)"

text \<open>\<^verbatim>\<open>str.capitalize\<close> for a string of ASCII characters.\<close>

definition ascii_capitalize :: "string \<Rightarrow> string" where
  "ascii_capitalize s =
     (case s of
        [] \<Rightarrow> []
      | c # cs \<Rightarrow>
          (case map_of (zip ''abcdefghijklmnopqrstuvwxyz'' ''ABCDEFGHIJKLMNOPQRSTUVWXYZ'') c of
             None \<Rightarrow> c
           | Some d \<Rightarrow> d) # lower cs)"

text \<open>
  Markup that holds nothing but \<^verbatim>\<open><title>Acme | Home</title>\<close>, the same with a no-break
  space (the code point 160) in the place of the blank after \<^verbatim>\<open>Acme\<close>, a title that has
  only a no-break space before the bar, and empty markup.
\<close>

definition acme_title :: node where
  "acme_title = Tag ''[document]'' [] [Tag ''title'' [] [NavigableString ''Acme | Home'']]"

definition acme_nbsp_title :: node where
  "acme_nbsp_title =
     Tag ''[document]'' [] [Tag ''title'' [] [NavigableString (''Acme'' @ [CHR 0xA0] @ ''| Home'')]]"

definition nbsp_title :: node where
  "nbsp_title = Tag ''[document]'' [] [Tag ''title'' [] [NavigableString ([CHR 0xA0] @ ''| Home'')]]"

definition empty_markup :: node where
  "empty_markup = Tag ''[document]'' [] []"

text \<open>
  A page without FAQ markup whose text is \<^verbatim>\<open>Q: Why? A: Because.\<close>, with the matches of the
  question pattern in that text, and a page with one FAQ element.
\<close>

definition plain_faq_page :: node where
  "plain_faq_page = Tag ''[document]'' [] [Tag ''p'' [] [NavigableString ''Q: Why? A: Because.'']]"

definition plain_faq_matches :: "string \<Rightarrow> (string \<times> string) list" where
  "plain_faq_matches text = (if text = ''Q: Why? A: Because.'' then [(''Why?'', ''Because.'')] else [])"

definition faq_page :: node where
  "faq_page =
     Tag ''[document]'' []
       [Tag ''div'' [(''class'', ''faq-item open'')]
          [Tag ''h3'' [] [NavigableString '' What is your return policy? ''],
           Tag ''p'' [] [NavigableString ''Thirty days.'']]]"




text \<open>A page whose only social link goes to \<^verbatim>\<open>x.com\<close>, and one that links \<^verbatim>\<open>twitter.com\<close>.\<close>

definition x_page :: node where
  "x_page =
     Tag ''[document]'' [] [Tag ''a'' [(''href'', ''https://x.com/acme'')] [NavigableString ''X'']]"

definition twitter_page :: node where
  "twitter_page =
     Tag ''[document]'' []
       [Tag ''a'' [(''href'', ''https://twitter.com/Acme'')] [NavigableString ''Twitter'']]"

text \<open>A page with no about section and a meta description of 1001 characters.\<close>

definition long_description_page :: node where
  "long_description_page =
     Tag ''[document]'' []
       [Tag ''meta'' [(''name'', ''description''), (''content'', replicate 1001 (CHR ''a''))] []]"

text \<open>
  A page whose text is \<^verbatim>\<open>555-123-4567 555-123-4567\<close>, with the matches of the phone pattern
  in that text: the second match starts with the blank, which the pattern takes as a
  separator before the first group of digits.
\<close>

definition phone_page :: node where
  "phone_page = Tag ''[document]'' [] [NavigableString ''555-123-4567 555-123-4567'']"

definition phone_matches :: "string \<Rightarrow> string list" where
  "phone_matches text =
     (if text = ''555-123-4567 555-123-4567'' then [''555-123-4567'', '' 555-123-4567''] else [])"

definition no_matches :: "string \<Rightarrow> string list" where
  "no_matches text = []"








section \<open>The entries of the catalog\<close>

lemma and_then_simps:
  "and_then (Inl e) f = Inl e"
  "and_then (Inr v) f = f v"
  by (simp_all add: and_then_def)

lemma and_then_Inr:
  "and_then r f = Inr y \<longleftrightarrow> (\<exists>v. r = Inr v \<and> f v = Inr y)"
  by (cases r) (simp_all add: and_then_def)

lemma py_get_Inr: "py_get x k dflt = Inr y \<longleftrightarrow> (\<exists>d. x = JDict d \<and> y = lookup d k dflt)"
  by (cases x) auto

lemma product_model_dict:
  "product_model ht pyd rp (JDict d) =
     and_then (ht (lookup d ''body_html'' (JStr []))) (\<lambda>text.
     and_then (index0 (lookup d ''variants'' (JList [JDict []]))) (\<lambda>first.
     and_then (py_get first ''price'' (JStr ''0'')) (\<lambda>amount.
     and_then (and_then (iterate (lookup d ''images'' (JList []))) image_srcs) (\<lambda>srcs.
       validate_model pyd
         \<lparr> arg_id = py_str rp (lookup d ''id'' (JStr [])),
           arg_title = lookup d ''title'' (JStr []),
           arg_description = take 500 text, arg_price = py_str rp amount,
           arg_images = srcs, arg_variants = lookup d ''variants'' (JList []) \<rparr>))))"
  by (auto simp: product_model_def and_then_def split: sum.splits)

lemma product_model_Inr_dict:
  "product_model ht pyd rp product = Inr m \<Longrightarrow> \<exists>d. product = JDict d"
  by (cases product) (simp_all add: product_model_def and_then_def)

lemma index0_dict:
  "index0 x = Inr first \<Longrightarrow> py_get first k dflt = Inr y \<Longrightarrow> \<exists>v vs. x = JList (JDict v # vs)"
proof (cases x)
  case (JList xs)
  assume "index0 x = Inr first" "py_get first k dflt = Inr y"
  with JList show ?thesis by (cases xs) (auto simp: py_get_Inr)
next
  case (JStr s)
  assume "index0 x = Inr first" "py_get first k dflt = Inr y"
  with JStr show ?thesis by (cases s) auto
qed auto

lemma product_model_variants:
  assumes "product_model ht pyd rp (JDict d) = Inr m"
  shows "map_of d ''variants'' = None \<or> (\<exists>v vs. map_of d ''variants'' = Some (JList (JDict v # vs)))"
proof (cases "map_of d ''variants''")
  case None
  then show ?thesis by simp
next
  case (Some x)
  from assms obtain first y where "index0 (lookup d ''variants'' (JList [JDict []])) = Inr first"
    "py_get first ''price'' (JStr ''0'') = Inr y"
    unfolding product_model_dict by (auto simp: and_then_Inr)
  with Some obtain v vs where "x = JList (JDict v # vs)"
    using index0_dict [of x first "''price''" "JStr ''0''" y] by (auto simp: lookup_def)
  with Some show ?thesis by simp
qed

lemma normalize_page_variants:
  "normalize_page ht pyd rp ps = Inr ms \<Longrightarrow>
   \<forall>p \<in> set ps. \<exists>d. p = JDict d \<and> map_of d ''variants'' \<noteq> Some (JList [])"
proof (induction ps arbitrary: ms)
  case Nil
  then show ?case by simp
next
  case (Cons p ps)
  from Cons.prems obtain m ms' where m: "product_model ht pyd rp p = Inr m"
    and rest: "normalize_page ht pyd rp ps = Inr ms'"
    by (auto simp: and_then_Inr)
  from m obtain d where d: "p = JDict d" using product_model_Inr_dict by blast
  with m have "map_of d ''variants'' \<noteq> Some (JList [])"
    using product_model_variants [of ht pyd rp d m] by auto
  with d Cons.IH [OF rest] show ?case by simp
qed

text \<open>
  C10: the model of an entry reads the first element of the entry's variants, a list of
  one empty dictionary when the key is absent, and the price \<^verbatim>\<open>0\<close> when the first variant
  has no price. An entry is normalised without an exception only if it is a dictionary
  whose variants, when present, are a list that is not empty (and starts with a
  dictionary), and a page only if no entry of it has an empty list of variants. For an
  entry with an empty list of variants whose \<^verbatim>\<open>body_html\<close> the parser takes, the index
  raises \<^verbatim>\<open>IndexError\<close>; markup the parser refuses (\<^verbatim>\<open>None\<close> is such markup) raises
  before the index is reached. The arguments of the model are given for an absent
  variants key and for a first variant with and without a price.
\<close>

theorem normalize_first_variant:
  "((\<exists>m. product_model ht pyd rp product = Inr m) \<longrightarrow>
      (\<exists>d. product = JDict d \<and>
           (map_of d ''variants'' = None \<or>
            (\<exists>v vs. map_of d ''variants'' = Some (JList (JDict v # vs)))))) \<and>
   (map_of d ''variants'' = Some (JList []) \<and> (\<exists>t. ht (lookup d ''body_html'' (JStr [])) = Inr t) \<longrightarrow>
      product_model ht pyd rp (JDict d) = Inl (Error ''IndexError'' ''list index out of range'')) \<and>
   (\<forall>e. ht (lookup d ''body_html'' (JStr [])) = Inl e \<longrightarrow> product_model ht pyd rp (JDict d) = Inl e) \<and>
   (\<forall>t srcs.
      map_of d ''variants'' = None \<and> ht (lookup d ''body_html'' (JStr [])) = Inr t \<and>
      and_then (iterate (lookup d ''images'' (JList []))) image_srcs = Inr srcs \<longrightarrow>
      product_model ht pyd rp (JDict d) =
        validate_model pyd
          \<lparr> arg_id = py_str rp (lookup d ''id'' (JStr [])),
            arg_title = lookup d ''title'' (JStr []),
            arg_description = take 500 t, arg_price = ''0'',
            arg_images = srcs, arg_variants = JList [] \<rparr>) \<and>
   (\<forall>t srcs v vs.
      map_of d ''variants'' = Some (JList (JDict v # vs)) \<and>
      ht (lookup d ''body_html'' (JStr [])) = Inr t \<and>
      and_then (iterate (lookup d ''images'' (JList []))) image_srcs = Inr srcs \<longrightarrow>
      product_model ht pyd rp (JDict d) =
        validate_model pyd
          \<lparr> arg_id = py_str rp (lookup d ''id'' (JStr [])),
            arg_title = lookup d ''title'' (JStr []),
            arg_description = take 500 t,
            arg_price = (case map_of v ''price'' of None \<Rightarrow> ''0'' | Some x \<Rightarrow> py_str rp x),
            arg_images = srcs, arg_variants = JList (JDict v # vs) \<rparr>) \<and>
   ((\<exists>ms. normalize_page ht pyd rp ps = Inr ms) \<longrightarrow>
      (\<forall>p \<in> set ps. \<exists>d. p = JDict d \<and> map_of d ''variants'' \<noteq> Some (JList [])))"
proof (intro conjI allI impI)
  assume "\<exists>m. product_model ht pyd rp product = Inr m"
  then obtain m where m: "product_model ht pyd rp product = Inr m" ..
  then obtain d' where "product = JDict d'" using product_model_Inr_dict by blast
  with m product_model_variants [of ht pyd rp d' m]
  show "\<exists>d. product = JDict d \<and>
           (map_of d ''variants'' = None \<or>
            (\<exists>v vs. map_of d ''variants'' = Some (JList (JDict v # vs))))"
    by simp
next
  assume "map_of d ''variants'' = Some (JList []) \<and> (\<exists>t. ht (lookup d ''body_html'' (JStr [])) = Inr t)"
  then show "product_model ht pyd rp (JDict d) = Inl (Error ''IndexError'' ''list index out of range'')"
    unfolding product_model_dict by (auto simp: and_then_simps lookup_def)
next
  fix e assume "ht (lookup d ''body_html'' (JStr [])) = Inl e"
  then show "product_model ht pyd rp (JDict d) = Inl e"
    unfolding product_model_dict by (simp add: and_then_simps)
next
  fix t srcs
  assume "map_of d ''variants'' = None \<and> ht (lookup d ''body_html'' (JStr [])) = Inr t \<and>
      and_then (iterate (lookup d ''images'' (JList []))) image_srcs = Inr srcs"
  then show "product_model ht pyd rp (JDict d) =
        validate_model pyd
          \<lparr> arg_id = py_str rp (lookup d ''id'' (JStr [])),
            arg_title = lookup d ''title'' (JStr []),
            arg_description = take 500 t, arg_price = ''0'',
            arg_images = srcs, arg_variants = JList [] \<rparr>"
    unfolding product_model_dict by (simp add: and_then_simps lookup_def)
next
  fix t srcs v vs
  assume "map_of d ''variants'' = Some (JList (JDict v # vs)) \<and>
      ht (lookup d ''body_html'' (JStr [])) = Inr t \<and>
      and_then (iterate (lookup d ''images'' (JList []))) image_srcs = Inr srcs"
  then show "product_model ht pyd rp (JDict d) =
        validate_model pyd
          \<lparr> arg_id = py_str rp (lookup d ''id'' (JStr [])),
            arg_title = lookup d ''title'' (JStr []),
            arg_description = take 500 t,
            arg_price = (case map_of v ''price'' of None \<Rightarrow> ''0'' | Some x \<Rightarrow> py_str rp x),
            arg_images = srcs, arg_variants = JList (JDict v # vs) \<rparr>"
    unfolding product_model_dict by (auto simp: and_then_simps lookup_def split: option.splits)
next
  assume "\<exists>ms. normalize_page ht pyd rp ps = Inr ms"
  then show "\<forall>p \<in> set ps. \<exists>d. p = JDict d \<and> map_of d ''variants'' \<noteq> Some (JList [])"
    using normalize_page_variants by blast
qed


theorem normalize_first_variant_witness:
  "product_model plain_text strict_pydantic no_repr shirt =
     Inr \<lparr> id' = Some ''7'', title = Some ''Shirt'', description = Some [], price = Some ''10.00'',
           images = [], variants = [[(''price'', JStr ''10.00'')]] \<rparr> \<and>
   product_model plain_text strict_pydantic no_repr shirt_without_variants =
     Inl (Error ''IndexError'' ''list index out of range'') \<and>
   (\<exists>msg. product_model plain_text strict_pydantic no_repr shirt_with_null_body =
            Inl (Error ''TypeError'' msg)) \<and>
   product_model plain_text strict_pydantic no_repr shirt_without_key =
     Inr \<lparr> id' = Some ''7'', title = Some ''Shirt'', description = Some [], price = Some ''0'',
           images = [], variants = [] \<rparr> \<and>
   product_model plain_text strict_pydantic no_repr shirt_without_price =
     Inr \<lparr> id' = Some ''7'', title = Some ''Shirt'', description = Some [], price = Some ''0'',
           images = [], variants = [[]] \<rparr> \<and>
   (\<exists>e. normalize_page plain_text strict_pydantic no_repr [shirt, shirt_without_variants] = Inl e)"
proof -
  let ?empty = "[(''id'', JInt 7), (''title'', JStr ''Shirt''), (''variants'', JList [])]"
  let ?null = "[(''id'', JInt 7), (''title'', JStr ''Shirt''), (''body_html'', JNull),
                (''variants'', JList [])]"
  let ?none = "[(''id'', JInt 7), (''title'', JStr ''Shirt'')]"
  let ?free = "[(''id'', JInt 7), (''title'', JStr ''Shirt''), (''variants'', JList [JDict []])]"
  let ?priced = "[(''id'', JInt 7), (''title'', JStr ''Shirt''),
                  (''variants'', JList [JDict [(''price'', JStr ''10.00'')]])]"
  have empty: "map_of ?empty ''variants'' = Some (JList []) \<and>
      (\<exists>t. plain_text (lookup ?empty ''body_html'' (JStr [])) = Inr t)"
    by (simp add: lookup_def plain_text_def)
  have null: "plain_text (lookup ?null ''body_html'' (JStr [])) = Inl (Error ''TypeError'' [])"
    by (simp add: lookup_def plain_text_def)
  have none: "map_of ?none ''variants'' = None \<and> plain_text (lookup ?none ''body_html'' (JStr [])) = Inr [] \<and>
      and_then (iterate (lookup ?none ''images'' (JList []))) image_srcs = Inr []"
    by (simp add: lookup_def plain_text_def and_then_def)
  have free: "map_of ?free ''variants'' = Some (JList (JDict [] # [])) \<and>
      plain_text (lookup ?free ''body_html'' (JStr [])) = Inr [] \<and>
      and_then (iterate (lookup ?free ''images'' (JList []))) image_srcs = Inr []"
    by (simp add: lookup_def plain_text_def and_then_def)
  have priced: "map_of ?priced ''variants'' = Some (JList (JDict [(''price'', JStr ''10.00'')] # [])) \<and>
      plain_text (lookup ?priced ''body_html'' (JStr [])) = Inr [] \<and>
      and_then (iterate (lookup ?priced ''images'' (JList []))) image_srcs = Inr []"
    by (simp add: lookup_def plain_text_def and_then_def)
  have seven: "str_int 7 = ''7''"
    by (simp add: str_int_def digits.simps)
  from empty have a: "product_model plain_text strict_pydantic no_repr shirt_without_variants =
      Inl (Error ''IndexError'' ''list index out of range'')"
    using normalize_first_variant [of plain_text strict_pydantic no_repr shirt ?empty "[]"]
    unfolding shirt_without_variants_def by blast
  from null have b: "product_model plain_text strict_pydantic no_repr shirt_with_null_body =
      Inl (Error ''TypeError'' [])"
    using normalize_first_variant [of plain_text strict_pydantic no_repr shirt ?null "[]"]
    unfolding shirt_with_null_body_def by blast
  from none have "product_model plain_text strict_pydantic no_repr shirt_without_key =
      validate_model strict_pydantic
        \<lparr> arg_id = py_str no_repr (lookup ?none ''id'' (JStr [])),
          arg_title = lookup ?none ''title'' (JStr []),
          arg_description = take 500 [], arg_price = ''0'',
          arg_images = [], arg_variants = JList [] \<rparr>"
    using normalize_first_variant [of plain_text strict_pydantic no_repr shirt ?none "[]"]
    unfolding shirt_without_key_def by blast
  then have c: "product_model plain_text strict_pydantic no_repr shirt_without_key =
      Inr \<lparr> id' = Some ''7'', title = Some ''Shirt'', description = Some [], price = Some ''0'',
            images = [], variants = [] \<rparr>"
    by (simp add: validate_model_def typed_model_def lookup_def seven)
  from free have "product_model plain_text strict_pydantic no_repr shirt_without_price =
      validate_model strict_pydantic
        \<lparr> arg_id = py_str no_repr (lookup ?free ''id'' (JStr [])),
          arg_title = lookup ?free ''title'' (JStr []),
          arg_description = take 500 [],
          arg_price = (case map_of [] ''price'' of None \<Rightarrow> ''0'' | Some x \<Rightarrow> py_str no_repr x),
          arg_images = [], arg_variants = JList (JDict [] # []) \<rparr>"
    using normalize_first_variant [of plain_text strict_pydantic no_repr shirt ?free "[]"]
    unfolding shirt_without_price_def by blast
  then have d: "product_model plain_text strict_pydantic no_repr shirt_without_price =
      Inr \<lparr> id' = Some ''7'', title = Some ''Shirt'', description = Some [], price = Some ''0'',
            images = [], variants = [[]] \<rparr>"
    by (simp add: validate_model_def typed_model_def lookup_def seven)
  from priced have "product_model plain_text strict_pydantic no_repr shirt =
      validate_model strict_pydantic
        \<lparr> arg_id = py_str no_repr (lookup ?priced ''id'' (JStr [])),
          arg_title = lookup ?priced ''title'' (JStr []),
          arg_description = take 500 [],
          arg_price = (case map_of [(''price'', JStr ''10.00'')] ''price'' of
                         None \<Rightarrow> ''0'' | Some x \<Rightarrow> py_str no_repr x),
          arg_images = [], arg_variants = JList (JDict [(''price'', JStr ''10.00'')] # []) \<rparr>"
    using normalize_first_variant [of plain_text strict_pydantic no_repr shirt ?priced "[]"]
    unfolding shirt_def by blast
  then have e: "product_model plain_text strict_pydantic no_repr shirt =
      Inr \<lparr> id' = Some ''7'', title = Some ''Shirt'', description = Some [], price = Some ''10.00'',
            images = [], variants = [[(''price'', JStr ''10.00'')]] \<rparr>"
    by (simp add: validate_model_def typed_model_def lookup_def seven)
  have f: "\<exists>e. normalize_page plain_text strict_pydantic no_repr [shirt, shirt_without_variants] = Inl e"
  proof (cases "normalize_page plain_text strict_pydantic no_repr [shirt, shirt_without_variants]")
    case (Inl e)
    then show ?thesis by blast
  next
    case (Inr ms)
    then have "\<exists>d. shirt_without_variants = JDict d \<and> map_of d ''variants'' \<noteq> Some (JList [])"
      using normalize_first_variant [of plain_text strict_pydantic no_repr shirt ?empty
          "[shirt, shirt_without_variants]"]
      by auto
    then show ?thesis by (simp add: shirt_without_variants_def)
  qed
  from a b c d e f show ?thesis by blast
qed

section \<open>Pagination of the catalog\<close>

lemma normalize_page_append:
  "normalize_page ht pyd rp (xs @ ys) =
     and_then (normalize_page ht pyd rp xs)
       (\<lambda>a. and_then (normalize_page ht pyd rp ys) (\<lambda>b. Inr (a @ b)))"
  by (induction xs) (auto simp: and_then_def split: sum.splits)

lemma normalize_page_length: "normalize_page ht pyd rp xs = Inr ms \<Longrightarrow> length ms = length xs"
  by (induction xs arbitrary: ms) (auto simp: and_then_Inr)

lemma normalize_page_all:
  "\<forall>e \<in> set xs. \<exists>m. product_model ht pyd rp e = Inr m \<Longrightarrow> \<exists>ms. normalize_page ht pyd rp xs = Inr ms"
  by (induction xs) (auto simp: and_then_simps)

lemma catalog_loop_last:
  assumes "(\<exists>l. fetch_products sg (products_url b p) = Inr l \<and> \<not> is_true l) \<and> lst = [] \<or>
           fetch_products sg (products_url b p) = Inr (JList lst) \<and> length lst < 250"
      and "normalize_page ht pyd rp lst = Inr ms"
  shows "catalog_loop sg ht pyd rp b p acc log = Some (Inr (acc @ ms), log @ [products_url b p])"
  using assms by (subst catalog_loop.simps) auto

lemma catalog_loop_full:
  assumes "fetch_products sg (products_url b p) = Inr (JList entries)" "length entries = 250"
      and "normalize_page ht pyd rp entries = Inr ms"
  shows "catalog_loop sg ht pyd rp b p acc log =
         catalog_loop sg ht pyd rp b (p + 1) (acc @ ms) (log @ [products_url b p])"
  using assms by (subst catalog_loop.simps) auto

lemma catalog_loop_run:
  assumes full: "\<forall>q \<in> {p..N}. fetch_products sg (products_url b q) = Inr (JList (pages q)) \<and>
                   length (pages q) = 250"
      and short: "(\<exists>l. fetch_products sg (products_url b (N + 1)) = Inr l \<and> \<not> is_true l) \<and> lst = [] \<or>
                  fetch_products sg (products_url b (N + 1)) = Inr (JList lst) \<and> length lst < 250"
      and ok: "normalize_page ht pyd rp (concat (map pages [p..<N + 1]) @ lst) = Inr ms"
      and le: "p \<le> N + 1"
  shows "catalog_loop sg ht pyd rp b p acc log =
         Some (Inr (acc @ ms), log @ map (products_url b) [p..<N + 2])"
  using full ok le
proof (induction "N + 1 - p" arbitrary: p acc log ms)
  case 0
  then have p: "p = N + 1" by simp
  with "0.prems" have "normalize_page ht pyd rp lst = Inr ms" by simp
  with short show ?case
    unfolding p by (simp add: catalog_loop_last)
next
  case (Suc k)
  then have p: "p \<le> N" by simp
  then have up: "[p..<N + 1] = p # [p + 1..<N + 1]" "[p..<N + 2] = p # [p + 1..<N + 2]"
    by (simp_all add: upt_conv_Cons)
  from Suc.prems(1) p have page: "fetch_products sg (products_url b p) = Inr (JList (pages p))"
    "length (pages p) = 250"
    by simp_all
  from Suc.prems(2) obtain m1 m2 where
    m1: "normalize_page ht pyd rp (pages p) = Inr m1" and
    m2: "normalize_page ht pyd rp (concat (map pages [p + 1..<N + 1]) @ lst) = Inr m2" and
    ms: "ms = m1 @ m2"
    unfolding up by (auto simp: normalize_page_append and_then_Inr)
  have "catalog_loop sg ht pyd rp b (p + 1) (acc @ m1) (log @ [products_url b p]) =
        Some (Inr ((acc @ m1) @ m2), (log @ [products_url b p]) @ map (products_url b) [p + 1..<N + 2])"
  proof (rule Suc.hyps(1))
    show "k = N + 1 - (p + 1)" using Suc.hyps(2) by simp
    show "\<forall>q\<in>{p + 1..N}. fetch_products sg (products_url b q) = Inr (JList (pages q)) \<and>
            length (pages q) = 250"
      using Suc.prems(1) by simp
    show "normalize_page ht pyd rp (concat (map pages [p + 1..<N + 1]) @ lst) = Inr m2" by (rule m2)
    show "p + 1 \<le> N + 1" using p by simp
  qed
  then show ?case
    unfolding catalog_loop_full [OF page m1] up ms by simp
qed

lemma length_full_pages:
  "\<forall>q \<in> {p..N}. length (pages q) = 250 \<Longrightarrow> length (concat (map pages [p..<N + 1])) = 250 * (N + 1 - p)"
proof (induction "N + 1 - p" arbitrary: p)
  case 0
  then show ?case by simp
next
  case (Suc k)
  then have p: "p \<le> N" by simp
  then have up: "[p..<N + 1] = p # [p + 1..<N + 1]"
    by (simp add: upt_conv_Cons)
  have "length (concat (map pages [p + 1..<N + 1])) = 250 * (N + 1 - (p + 1))"
    using Suc by (intro Suc.hyps) auto
  with p Suc.prems show ?case unfolding up by simp
qed

lemma example_urls:
  "products_url ''https://shop.example/'' 1 = ''https://shop.example/products.json?limit=250&page=1''"
  "products_url ''https://shop.example/'' 2 = ''https://shop.example/products.json?limit=250&page=2''"
  "products_url ''https://shop.example'' 1 = ''https://shop.example/products.json?limit=250&page=1''"
  "products_url ''https://shop.example/'' (Suc 0) = ''https://shop.example/products.json?limit=250&page=1''"
  "products_url ''https://shop.example/'' (Suc (Suc 0)) = ''https://shop.example/products.json?limit=250&page=2''"
  "products_url ''https://shop.example'' (Suc 0) = ''https://shop.example/products.json?limit=250&page=1''"
  by (simp_all add: products_url_def rstrip_slash_def str_int_def digits.simps)

text \<open>
  C2 (as amended): when the listing answers the pages 1 to \<open>N\<close> with lists of exactly 250
  entries each and the page \<open>N + 1\<close> with no product list (or a false value in its place)
  or with a list \<open>lst\<close> of fewer than 250 entries, and every entry is normalised without an
  exception, \<^verbatim>\<open>fetch_product_catalog\<close> ends, returns the models of all the entries in page
  order, \<open>250 * N + length lst\<close> of them, and has requested exactly the pages 1 to
  \<open>N + 1\<close>.
\<close>

theorem fetch_product_catalog_pages:
  assumes full: "\<forall>q \<in> {1..N}. fetch_products sg (products_url b q) = Inr (JList (pages q)) \<and>
                   length (pages q) = 250"
      and short: "(\<exists>l. fetch_products sg (products_url b (N + 1)) = Inr l \<and> \<not> is_true l) \<and> lst = [] \<or>
                  fetch_products sg (products_url b (N + 1)) = Inr (JList lst) \<and> length lst < 250"
      and normal: "\<forall>e \<in> set (concat (map pages [1..<N + 1]) @ lst). \<exists>m. product_model ht pyd rp e = Inr m"
  shows "\<exists>ms. fetch_product_catalog sg ht pyd rp b = Some (Inr ms, map (products_url b) [1..<N + 2]) \<and>
              normalize_page ht pyd rp (concat (map pages [1..<N + 1]) @ lst) = Inr ms \<and>
              length ms = 250 * N + length lst \<and>
              length (map (products_url b) [1..<N + 2]) = N + 1"
proof -
  from normal obtain ms where ms: "normalize_page ht pyd rp (concat (map pages [1..<N + 1]) @ lst) = Inr ms"
    using normalize_page_all [of "concat (map pages [1..<N + 1]) @ lst" ht pyd rp] by blast
  have "catalog_loop sg ht pyd rp b 1 [] [] = Some (Inr ([] @ ms), [] @ map (products_url b) [1..<N + 2])"
    using full short ms by (intro catalog_loop_run) auto
  then have run: "fetch_product_catalog sg ht pyd rp b = Some (Inr ms, map (products_url b) [1..<N + 2])"
    by (simp add: fetch_product_catalog_def)
  have "length (concat (map pages [1..<N + 1])) = 250 * (N + 1 - 1)"
    using full by (intro length_full_pages) auto
  then have len: "length ms = 250 * N + length lst"
    using normalize_page_length [OF ms] by simp
  show ?thesis using run ms len by simp
qed

theorem fetch_product_catalog_pages_witness:
  "\<exists>ms. fetch_product_catalog shop plain_text strict_pydantic no_repr ''https://shop.example/'' =
           Some (Inr ms, [''https://shop.example/products.json?limit=250&page=1'',
                          ''https://shop.example/products.json?limit=250&page=2'']) \<and>
        length ms = 251"
proof -
  have full: "\<forall>q \<in> {1..1}. fetch_products shop (products_url ''https://shop.example/'' q) =
                Inr (JList (replicate 250 shirt)) \<and> length (replicate 250 shirt) = 250"
    by (simp add: example_urls fetch_products_def fetch_json_def shop_def and_then_def lookup_def)
  have short: "(\<exists>l. fetch_products shop (products_url ''https://shop.example/'' (1 + 1)) = Inr l \<and>
                    \<not> is_true l) \<and> [shirt] = [] \<or>
               fetch_products shop (products_url ''https://shop.example/'' (1 + 1)) = Inr (JList [shirt]) \<and>
               length [shirt] < 250"
    by (simp add: example_urls fetch_products_def fetch_json_def shop_def and_then_def lookup_def)
  have "product_model plain_text strict_pydantic no_repr shirt =
      Inr \<lparr> id' = Some ''7'', title = Some ''Shirt'', description = Some [], price = Some ''10.00'',
            images = [], variants = [[(''price'', JStr ''10.00'')]] \<rparr>"
    by code_simp
  then have normal: "\<forall>e \<in> set (concat (map (\<lambda>q. replicate 250 shirt) [1..<1 + 1]) @ [shirt]).
                    \<exists>m. product_model plain_text strict_pydantic no_repr e = Inr m"
    by auto
  have two: "[1..<1 + 2] = [1, 2::nat]"
    by (simp add: upt_rec)
  show ?thesis
    using fetch_product_catalog_pages [of 1 shop "''https://shop.example/''" "\<lambda>q. replicate 250 shirt"
        "[shirt]" plain_text strict_pydantic no_repr, OF full short normal]
    by (auto simp: two example_urls)
qed

text \<open>
  C2 as stated fails: a listing of one short page whose single entry has an empty list of
  variants makes \<^verbatim>\<open>fetch_product_catalog\<close> raise \<^verbatim>\<open>IndexError\<close> after one request, where the
  claim promises one product.
\<close>

theorem fetch_product_catalog_raises:
  "fetch_products broken_shop (products_url ''https://shop.example'' 1) =
     Inr (JList [shirt_without_variants]) \<and>
   length [shirt_without_variants] < 250 \<and>
   fetch_product_catalog broken_shop plain_text strict_pydantic no_repr ''https://shop.example'' =
     Some (Inl (Error ''IndexError'' ''list index out of range''),
           [''https://shop.example/products.json?limit=250&page=1''])"
  by code_simp

section \<open>Hero products\<close>








section \<open>Brand name\<close>

lemma hd_split_acc_char:
  "hd (split_acc [c] acc s) = rev acc @ takeWhile (\<lambda>x. x \<noteq> c) s"
  by (induction s arbitrary: acc) auto

lemma hd_split_char: "hd (split s [c]) = takeWhile (\<lambda>x. x \<noteq> c) s"
  by (simp add: split_def hd_split_acc_char)

lemma takeWhile_twice:
  "takeWhile Q (takeWhile P s) = takeWhile (\<lambda>x. P x \<and> Q x) s"
  by (induction s) auto

text \<open>
  C4 (as amended): \<^verbatim>\<open>extract_brand_name\<close> returns the first of these that is not empty: the
  content of the \<^verbatim>\<open>og:site_name\<close> meta tag; the title up to its first \<^verbatim>\<open>|\<close> or \<^verbatim>\<open>-\<close>,
  stripped of the white space of \<^verbatim>\<open>str.strip\<close>; the alt text of the first image whose class
  matches \<^verbatim>\<open>logo\<close>; the capitalised first label of the network location of the URL with
  \<^verbatim>\<open>www.\<close> removed; and the literal \<^verbatim>\<open>Unknown Brand\<close> when all are empty. A name that is
  returned is never empty, markup that holds only \<^verbatim>\<open><title>Acme | Home</title>\<close> gives
  \<^verbatim>\<open>Acme\<close>, and markup without meta tag, title and logo gives the capitalised domain label
  whenever the URL parser returns. The function raises only in the fourth step, and then
  the exception of the URL parser.
\<close>

theorem brand_name_fallback_chain:
  "extract_brand_name nl cap soup url =
     (let m = (case find_tag is_og_site_name soup of None \<Rightarrow> [] | Some t \<Rightarrow> get_default t ''content'');
          t = (case find_tag (is_tag ''title'') soup of
                 None \<Rightarrow> []
               | Some t \<Rightarrow> strip (takeWhile (\<lambda>c. c \<noteq> CHR ''|'' \<and> c \<noteq> CHR ''-'') (get_text t)));
          l = (case find_tag is_logo_img soup of None \<Rightarrow> [] | Some i \<Rightarrow> get_default i ''alt'')
      in if m \<noteq> [] then Inr m else if t \<noteq> [] then Inr t else if l \<noteq> [] then Inr l
         else (case nl url of
                 Inl e \<Rightarrow> Inl e
               | Inr domain \<Rightarrow>
                   (if cap (takeWhile (\<lambda>c. c \<noteq> CHR ''.'') (replace domain ''www.'' [])) \<noteq> []
                    then Inr (cap (takeWhile (\<lambda>c. c \<noteq> CHR ''.'') (replace domain ''www.'' [])))
                    else Inr ''Unknown Brand''))) \<and>
   (\<forall>b. extract_brand_name nl cap soup url = Inr b \<longrightarrow> b \<noteq> []) \<and>
   (\<forall>e. extract_brand_name nl cap soup url = Inl e \<longrightarrow> nl url = Inl e) \<and>
   extract_brand_name nl cap acme_title url = Inr ''Acme'' \<and>
   (\<forall>domain.
      find_tag is_og_site_name soup = None \<and> find_tag (is_tag ''title'') soup = None \<and>
      find_tag is_logo_img soup = None \<and> nl url = Inr domain \<longrightarrow>
      extract_brand_name nl cap soup url =
        Inr (if cap (takeWhile (\<lambda>c. c \<noteq> CHR ''.'') (replace domain ''www.'' [])) = []
             then ''Unknown Brand''
             else cap (takeWhile (\<lambda>c. c \<noteq> CHR ''.'') (replace domain ''www.'' []))))"
proof -
  have chain: "extract_brand_name nl cap soup url =
     (let m = (case find_tag is_og_site_name soup of None \<Rightarrow> [] | Some t \<Rightarrow> get_default t ''content'');
          t = (case find_tag (is_tag ''title'') soup of
                 None \<Rightarrow> []
               | Some t \<Rightarrow> strip (takeWhile (\<lambda>c. c \<noteq> CHR ''|'' \<and> c \<noteq> CHR ''-'') (get_text t)));
          l = (case find_tag is_logo_img soup of None \<Rightarrow> [] | Some i \<Rightarrow> get_default i ''alt'')
      in if m \<noteq> [] then Inr m else if t \<noteq> [] then Inr t else if l \<noteq> [] then Inr l
         else (case nl url of
                 Inl e \<Rightarrow> Inl e
               | Inr domain \<Rightarrow>
                   (if cap (takeWhile (\<lambda>c. c \<noteq> CHR ''.'') (replace domain ''www.'' [])) \<noteq> []
                    then Inr (cap (takeWhile (\<lambda>c. c \<noteq> CHR ''.'') (replace domain ''www.'' [])))
                    else Inr ''Unknown Brand'')))"
    by (simp add: extract_brand_name_def method1_def method2_def method3_def method4_def
        get_default_def hd_split_char takeWhile_twice Let_def and_then_def
        split: option.splits sum.splits)
  have nonempty: "\<forall>b. extract_brand_name nl cap soup url = Inr b \<longrightarrow> b \<noteq> []"
    by (auto simp: extract_brand_name_def and_then_def split: option.splits sum.splits if_splits)
  have raises: "\<forall>e. extract_brand_name nl cap soup url = Inl e \<longrightarrow> nl url = Inl e"
    by (auto simp: extract_brand_name_def method4_def and_then_def split: option.splits sum.splits if_splits)
  have acme: "extract_brand_name nl cap acme_title url = Inr ''Acme''"
    by code_simp
  have bare: "\<forall>domain.
      find_tag is_og_site_name soup = None \<and> find_tag (is_tag ''title'') soup = None \<and>
      find_tag is_logo_img soup = None \<and> nl url = Inr domain \<longrightarrow>
      extract_brand_name nl cap soup url =
        Inr (if cap (takeWhile (\<lambda>c. c \<noteq> CHR ''.'') (replace domain ''www.'' [])) = []
             then ''Unknown Brand''
             else cap (takeWhile (\<lambda>c. c \<noteq> CHR ''.'') (replace domain ''www.'' [])))"
    by (simp add: chain)
  show ?thesis using chain nonempty raises acme bare by blast
qed

theorem brand_name_fallback_chain_witness:
  "extract_brand_name http_netloc ascii_capitalize empty_markup ''https://www.acme-shop.com/collections'' =
     Inr ''Acme-shop'' \<and>
   extract_brand_name http_netloc ascii_capitalize empty_markup ''https:///'' = Inr ''Unknown Brand'' \<and>
   extract_brand_name http_netloc ascii_capitalize acme_nbsp_title ''https://www.acme-shop.com'' =
     Inr ''Acme'' \<and>
   extract_brand_name http_netloc ascii_capitalize nbsp_title ''https://www.acme-shop.com'' =
     Inr ''Acme-shop''"
proof -
  have none: "find_tag is_og_site_name empty_markup = None \<and>
      find_tag (is_tag ''title'') empty_markup = None \<and> find_tag is_logo_img empty_markup = None"
    by code_simp
  have dom: "http_netloc ''https://www.acme-shop.com/collections'' = Inr ''www.acme-shop.com''"
    "http_netloc ''https:///'' = Inr []"
    by code_simp+
  have label: "ascii_capitalize (takeWhile (\<lambda>c. c \<noteq> CHR ''.'') (replace ''www.acme-shop.com'' ''www.'' [])) =
      ''Acme-shop''"
    "ascii_capitalize (takeWhile (\<lambda>c. c \<noteq> CHR ''.'') (replace [] ''www.'' [])) = []"
    by code_simp+
  have nbsp: "extract_brand_name http_netloc ascii_capitalize acme_nbsp_title ''https://www.acme-shop.com'' =
      Inr ''Acme''"
    "extract_brand_name http_netloc ascii_capitalize nbsp_title ''https://www.acme-shop.com'' =
      Inr ''Acme-shop''"
    by code_simp+
  have shop: "find_tag is_og_site_name empty_markup = None \<and>
      find_tag (is_tag ''title'') empty_markup = None \<and> find_tag is_logo_img empty_markup = None \<and>
      http_netloc ''https://www.acme-shop.com/collections'' = Inr ''www.acme-shop.com''"
    using none dom(1) by blast
  have bare: "find_tag is_og_site_name empty_markup = None \<and>
      find_tag (is_tag ''title'') empty_markup = None \<and> find_tag is_logo_img empty_markup = None \<and>
      http_netloc ''https:///'' = Inr []"
    using none dom(2) by blast
  note chain = brand_name_fallback_chain [of http_netloc ascii_capitalize empty_markup
      "''https://www.acme-shop.com/collections''"]
  note chain' = brand_name_fallback_chain [of http_netloc ascii_capitalize empty_markup "''https:///''"]
  have a: "extract_brand_name http_netloc ascii_capitalize empty_markup ''https://www.acme-shop.com/collections'' =
      Inr ''Acme-shop''"
    using chain [THEN conjunct2, THEN conjunct2, THEN conjunct2, THEN conjunct2, rule_format, OF shop]
    unfolding label by simp
  have b: "extract_brand_name http_netloc ascii_capitalize empty_markup ''https:///'' = Inr ''Unknown Brand''"
    using chain' [THEN conjunct2, THEN conjunct2, THEN conjunct2, THEN conjunct2, rule_format, OF bare]
    unfolding label by simp
  from a b nbsp show ?thesis by blast
qed

text \<open>
  C4 as stated fails: the function is not total. For markup without meta tag, title and
  logo and the URL \<^verbatim>\<open>http://[x\<close>, whose network location opens a square bracket and does
  not close it, the URL parser raises \<^verbatim>\<open>ValueError\<close>, and \<^verbatim>\<open>extract_brand_name\<close> raises it
  instead of returning a name.
\<close>

theorem brand_name_raises:
  "find_tag is_og_site_name empty_markup = None \<and> find_tag (is_tag ''title'') empty_markup = None \<and>
   find_tag is_logo_img empty_markup = None \<and>
   extract_brand_name http_netloc ascii_capitalize empty_markup ''http://[x'' =
     Inl (Error ''ValueError'' ''Invalid IPv6 URL'')"
  by code_simp

section \<open>FAQs\<close>

lemma element_faq_accepted:
  "f \<in> set (element_faq element) \<Longrightarrow> question f \<noteq> [] \<and> answer f \<noteq> [] \<and> 10 < length (question f)"
  by (auto simp: element_faq_def split: option.splits if_splits)

lemma structured_faqs_accepted:
  "f \<in> set (structured_faqs soup) \<Longrightarrow> question f \<noteq> [] \<and> answer f \<noteq> [] \<and> 10 < length (question f)"
  unfolding structured_faqs_def using element_faq_accepted by fastforce

lemma match_faq_accepted:
  "f \<in> set (match_faq m) \<Longrightarrow> question f \<noteq> [] \<and> answer f \<noteq> [] \<and> length (answer f) \<le> 300"
  by (auto simp: match_faq_def split: if_splits)

lemma pattern_faqs_accepted:
  "f \<in> set (pattern_faqs qf soup) \<Longrightarrow> question f \<noteq> [] \<and> answer f \<noteq> [] \<and> length (answer f) \<le> 300"
  unfolding pattern_faqs_def using match_faq_accepted by (fastforce dest: in_set_takeD)

lemma length_match_faqs: "length (concat (map match_faq ms)) \<le> length ms"
  by (induction ms) (auto simp: match_faq_def)

lemma length_pattern_faqs: "length (pattern_faqs qf soup) \<le> 10"
proof -
  have "length (pattern_faqs qf soup) \<le> length (take 10 (qf (get_text soup)))"
    unfolding pattern_faqs_def by (rule length_match_faqs)
  then show ?thesis by simp
qed

text \<open>
  C5 (as amended): \<^verbatim>\<open>extract_faqs\<close> returns at most 15 FAQs, each with a question and an
  answer that are not empty. When the structural selectors yield FAQs, every question has
  more than 10 characters. When they yield none, the FAQs come from the pattern: there are
  at most 10, their answers have at most 300 characters, and no length of the question
  is asked for.
\<close>

theorem faqs_accepted:
  "length (extract_faqs qf soup) \<le> 15 \<and>
   (structured_faqs soup = [] \<longrightarrow> length (extract_faqs qf soup) \<le> 10) \<and>
   (\<forall>f \<in> set (extract_faqs qf soup).
      question f \<noteq> [] \<and> answer f \<noteq> [] \<and>
      (structured_faqs soup \<noteq> [] \<longrightarrow> 10 < length (question f)) \<and>
      (structured_faqs soup = [] \<longrightarrow> length (answer f) \<le> 300))"
proof (intro conjI ballI)
  show "length (extract_faqs qf soup) \<le> 15"
    by (simp add: extract_faqs_def)
  show "structured_faqs soup = [] \<longrightarrow> length (extract_faqs qf soup) \<le> 10"
    using length_pattern_faqs [of qf soup] by (simp add: extract_faqs_def)
next
  fix f assume f: "f \<in> set (extract_faqs qf soup)"
  show "question f \<noteq> []"
    using f structured_faqs_accepted [of f soup] pattern_faqs_accepted [of f qf soup]
    by (auto simp: extract_faqs_def dest: in_set_takeD split: if_splits)
  show "answer f \<noteq> []"
    using f structured_faqs_accepted [of f soup] pattern_faqs_accepted [of f qf soup]
    by (auto simp: extract_faqs_def dest: in_set_takeD split: if_splits)
  show "structured_faqs soup \<noteq> [] \<longrightarrow> 10 < length (question f)"
    using f structured_faqs_accepted [of f soup]
    by (auto simp: extract_faqs_def dest: in_set_takeD split: if_splits)
  show "structured_faqs soup = [] \<longrightarrow> length (answer f) \<le> 300"
    using f pattern_faqs_accepted [of f qf soup]
    by (auto simp: extract_faqs_def dest: in_set_takeD split: if_splits)
qed

lemma faq_page_faqs:
  "structured_faqs faq_page = [\<lparr> question = ''What is your return policy?'', answer = ''Thirty days.'' \<rparr>]"
  "extract_faqs plain_faq_matches faq_page =
     [\<lparr> question = ''What is your return policy?'', answer = ''Thirty days.'' \<rparr>]"
  by code_simp+

theorem faqs_accepted_witness:
  "extract_faqs plain_faq_matches faq_page =
     [\<lparr> question = ''What is your return policy?'', answer = ''Thirty days.'' \<rparr>] \<and>
   10 < length (question \<lparr> question = ''What is your return policy?'', answer = ''Thirty days.'' \<rparr>) \<and>
   length (extract_faqs plain_faq_matches faq_page) \<le> 15"
  using faqs_accepted [of plain_faq_matches faq_page]
  unfolding faq_page_faqs by simp

text \<open>
  C5 as stated fails on the fallback: the page whose text is \<^verbatim>\<open>Q: Why? A: Because.\<close> gives
  the FAQ with the question \<^verbatim>\<open>Why?\<close>, of four characters.
\<close>

theorem faqs_short_question:
  "extract_faqs plain_faq_matches plain_faq_page = [\<lparr> question = ''Why?'', answer = ''Because.'' \<rparr>] \<and>
   \<not> 10 < length (question \<lparr> question = ''Why?'', answer = ''Because.'' \<rparr>)"
  by code_simp

section \<open>Important links\<close>








section \<open>Social handles\<close>

text \<open>
  C7, at the input where the code departs from it: the anchor with the href
  \<^verbatim>\<open>https://x.com/acme\<close> holds \<^verbatim>\<open>x.com\<close>, but the pattern of \<^verbatim>\<open>find_all\<close> names six sites
  and \<^verbatim>\<open>x\<close> is not one of them: the anchor is not scanned and the twitter field stays
  absent. An anchor to \<^verbatim>\<open>twitter.com\<close> sets the field to its lower-cased href.
\<close>

theorem social_handles_x_com_unscanned:
  "contains (lower ''https://x.com/acme'') ''x.com'' \<and>
   social_links x_page = [] \<and>
   twitter (extract_social_handles x_page) = None \<and>
   extract_social_handles x_page = no_handles \<and>
   twitter (extract_social_handles twitter_page) = Some ''https://twitter.com/acme''"
  by code_simp

section \<open>Brand context\<close>

lemma first_text_bound: "first_text least most sels soup = Some t \<Longrightarrow> length t \<le> most"
  by (induction sels) (auto split: option.splits if_splits)

text \<open>
  C8, at the input where the code departs from it: with no about section, a meta
  description of 1001 characters is returned whole, so the brand context has more than
  1000 characters. (The text of an about section is cut at 1000 characters, as
  \<open>first_text_bound\<close> shows.)
\<close>

theorem brand_context_meta_untruncated:
  "first_text 50 1000 about_selectors long_description_page = None \<and>
   extract_brand_context long_description_page = Some (replicate 1001 (CHR ''a'')) \<and>
   length (replicate 1001 (CHR ''a'')) = 1001"
  by code_simp

section \<open>Contact details\<close>

text \<open>
  The emails are as C9 says, in whatever order the set is iterated: at most five, without
  duplicates, none with the ending of an image, and all of the matches without such an
  ending when there are five or fewer of them. There are at most three phone numbers.
\<close>

lemma contact_emails_capped:
  assumes "set_order (ef (get_text soup)) (ls (ef (get_text soup)))"
  shows "length (emails (extract_contact_details ef pf ls soup)) \<le> 5 \<and>
         length (phone_numbers (extract_contact_details ef pf ls soup)) \<le> 3 \<and>
         distinct (emails (extract_contact_details ef pf ls soup)) \<and>
         set (emails (extract_contact_details ef pf ls soup)) \<subseteq>
           {e \<in> set (ef (get_text soup)). \<not> image_name e} \<and>
         (card {e \<in> set (ef (get_text soup)). \<not> image_name e} \<le> 5 \<longrightarrow>
            set (emails (extract_contact_details ef pf ls soup)) =
              {e \<in> set (ef (get_text soup)). \<not> image_name e})"
proof -
  let ?good = "filter (\<lambda>email. \<not> image_name email) (ls (ef (get_text soup)))"
  from assms have d: "distinct ?good" and s: "set ?good = {e \<in> set (ef (get_text soup)). \<not> image_name e}"
    by (auto simp: set_order_def)
  have e: "emails (extract_contact_details ef pf ls soup) = take 5 ?good"
    by (simp add: extract_contact_details_def)
  have "card {e \<in> set (ef (get_text soup)). \<not> image_name e} \<le> 5 \<longrightarrow> take 5 ?good = ?good"
    using distinct_card [OF d] s by simp
  then show ?thesis
    unfolding e using d s set_take_subset [of 5 ?good]
    by (auto simp: extract_contact_details_def)
qed

lemma two_element_orders:
  assumes "set_order [a, b] ys" "a \<noteq> b"
  shows "ys = [a, b] \<or> ys = [b, a]"
proof -
  from assms have d: "distinct ys" and s: "set ys = {a, b}"
    by (simp_all add: set_order_def)
  from d have "length ys = card (set ys)" by (simp add: distinct_card)
  with s assms(2) have "length ys = 2" by simp
  then obtain x y where ys: "ys = [x, y]"
    by (auto simp: length_Suc_conv numeral_2_eq_2)
  with s have "{x, y} = {a, b}" by simp
  then have "x = a \<and> y = b \<or> x = b \<and> y = a"
    using d ys by (auto simp: doubleton_eq_iff)
  with ys show ?thesis by simp
qed

text \<open>
  C9, at the input where the code departs from it: in the text
  \<^verbatim>\<open>555-123-4567 555-123-4567\<close> the pattern matches the number once without and once with the
  blank before it. The set keeps both, they are stripped after that, and the list of phone
  numbers holds the same number twice, in whatever order the set is iterated.
\<close>

theorem phone_numbers_duplicate:
  assumes "set_order (phone_matches (get_text phone_page)) (ls (phone_matches (get_text phone_page)))"
  shows "phone_numbers (extract_contact_details ef phone_matches ls phone_page) =
           [''555-123-4567'', ''555-123-4567'']"
proof -
  have m: "phone_matches (get_text phone_page) = [''555-123-4567'', '' 555-123-4567'']"
    by code_simp
  have "ls (phone_matches (get_text phone_page)) = [''555-123-4567'', '' 555-123-4567''] \<or>
        ls (phone_matches (get_text phone_page)) = ['' 555-123-4567'', ''555-123-4567'']"
    using assms unfolding m by (intro two_element_orders) simp_all
  moreover have "strip ''555-123-4567'' = ''555-123-4567''" "strip '' 555-123-4567'' = ''555-123-4567''"
    by code_simp+
  ultimately show ?thesis
    by (auto simp: extract_contact_details_def)
qed

theorem phone_numbers_duplicate_witness:
  "phone_numbers (extract_contact_details no_matches phone_matches remdups phone_page) =
     [''555-123-4567'', ''555-123-4567''] \<and>
   \<not> distinct (phone_numbers (extract_contact_details no_matches phone_matches remdups phone_page))"
proof -
  have "set_order (phone_matches (get_text phone_page)) (remdups (phone_matches (get_text phone_page)))"
    by (simp add: set_order_def)
  from phone_numbers_duplicate [of remdups no_matches, OF this] show ?thesis by simp
qed

section \<open>The orchestrator\<close>


lemma assign_link_step:
  "assign_link (link_text l) (link_href f b l) acc = link_step f b acc l"
  by (simp add: assign_link_def link_step_def)

lemma links_loop_total:
  "\<forall>l \<in> set ls. resolve_href uj b l = Inr (link_href f b l) \<Longrightarrow>
   links_loop uj b acc ls = Inr (foldl (link_step f b) acc ls)"
  by (induction ls arbitrary: acc) (simp_all add: and_then_simps assign_link_step)

lemma important_links_total:
  "\<forall>l \<in> set (href_links soup). resolve_href uj b l = Inr (link_href f b l) \<Longrightarrow>
   important_links_or_raise uj soup b = Inr (extract_important_links f soup b)"
  by (simp add: important_links_or_raise_def extract_important_links_def links_loop_total)



end
